theory Spec2Isabelle
  imports Main "HOL-Library.Word" "HOL-Library.Multiset"
begin

section \<open>JavaScript strings\<close>

text \<open>
  A JavaScript string is a sequence of UTF-16 code units; \<open>length\<close>, \<open>slice\<close>,
  \<open>includes\<close> and \<open>===\<close> all work on code units. String literals of the source are
  written with \<open>js\<close>.
\<close>

type_synonym jsstring = "16 word list"

definition js :: "string \<Rightarrow> jsstring" where
  "js s = map of_char s"

text \<open>
  The code units \<open>String.prototype.trim\<close> strips: ECMAScript's WhiteSpace and
  LineTerminator productions (TAB, LF, VT, FF, CR, SP, NBSP, U+1680, U+2000..U+200A,
  U+2028, U+2029, U+202F, U+205F, U+3000, U+FEFF).
\<close>

definition isWhiteSpace :: "16 word \<Rightarrow> bool" where
  "isWhiteSpace c =
     (c = 0x09 \<or> c = 0x0A \<or> c = 0x0B \<or> c = 0x0C \<or> c = 0x0D \<or> c = 0x20 \<or> c = 0xA0
      \<or> c = 0x1680 \<or> (0x2000 \<le> c \<and> c \<le> 0x200A) \<or> c = 0x2028 \<or> c = 0x2029
      \<or> c = 0x202F \<or> c = 0x205F \<or> c = 0x3000 \<or> c = 0xFEFF)"

definition trim :: "jsstring \<Rightarrow> jsstring" where
  "trim s = rev (dropWhile isWhiteSpace (rev (dropWhile isWhiteSpace s)))"

text \<open>\<open>s.includes(q)\<close>: \<open>q\<close> occurs in \<open>s\<close> as a contiguous run of code units.\<close>

fun includes_str :: "jsstring \<Rightarrow> jsstring \<Rightarrow> bool" where
  "includes_str [] q = (q = [])"
| "includes_str (c # s) q = (take (length q) (c # s) = q \<or> includes_str s q)"

text \<open>
  \<open>String.prototype.toLowerCase\<close> is a built-in of the platform driven by the Unicode
  case tables; every function that calls it takes it as the parameter \<open>toLowerCase\<close>.
  \<open>asciiLower\<close> is the restriction of the built-in to strings of ASCII code units, used
  where a concrete input is evaluated.
\<close>

definition asciiLower :: "jsstring \<Rightarrow> jsstring" where
  "asciiLower s = map (\<lambda>c. if 0x41 \<le> c \<and> c \<le> 0x5A then c + 0x20 else c) s"

section \<open>The thread list (component \<open>ThreadsList\<close>)\<close>

datatype ThreadType = Classroom | Generic

text \<open>
  Modelled from the spec: the \<open>Thread\<close> type of \<open>./threadTypes\<close>, which is imported by
  the list but is not among the sources. The fields are those the spec's data model names
  and the list reads. \<open>createdAt\<close> and \<open>updatedAt\<close> hold the time value the list hands
  to \<open>new Date\<close> (milliseconds since the epoch), which need not be the time value of a
  date; \<open>repliesCount\<close> is an integral number. \<open>unitId\<close> is present on classroom threads and
  \<open>category\<close> on generic ones; reading an absent field gives \<open>undefined\<close>, here \<open>None\<close>.
\<close>

record Thread =
  threadId :: jsstring
  title :: jsstring
  content :: jsstring
  authorName :: jsstring
  tags :: "jsstring list"
  createdAt :: int
  updatedAt :: int
  repliesCount :: int
  isResolved :: bool
  threadType :: ThreadType
  unitId :: "jsstring option"
  category :: "jsstring option"

text \<open>The component state the memoised computation depends on.\<close>

datatype TypeFilter = AllTypes | Only ThreadType

datatype SortKey = Recent | Replies | Created

record Query =
  searchQuery :: jsstring
  selectedThreadType :: TypeFilter
  selectedUnit :: jsstring
  selectedCategory :: jsstring
  sortBy :: SortKey

subsection \<open>Arrays as heap objects\<close>

text \<open>
  A JavaScript array is an object with an identity: \<open>let filtered = threads\<close> copies the
  reference, \<open>filter\<close> allocates a fresh array and \<open>sort\<close> reorders the array it is
  called on. The heap maps a reference to the elements of the array it denotes;
  \<open>nextRef\<close> is the first reference not yet allocated.
\<close>

record Heap =
  arrays :: "nat \<Rightarrow> Thread list"
  nextRef :: nat

definition arrayFilter :: "(Thread \<Rightarrow> bool) \<Rightarrow> nat \<times> Heap \<Rightarrow> nat \<times> Heap" where
  "arrayFilter p = (\<lambda>(r, h).
     (nextRef h,
      h\<lparr>arrays := (arrays h)(nextRef h := filter p (arrays h r)),
        nextRef := Suc (nextRef h)\<rparr>))"

text \<open>
  \<open>Array.prototype.sort\<close> with a comparator is stable, and for a consistent comparator
  its result is fixed by the language: the elements in ascending comparator order, equal
  ones in their former order. A stable insertion sort computes it. \<open>insertBy c x ys\<close>
  places \<open>x\<close>, which stood before every element of \<open>ys\<close>, in front of the first \<open>y\<close>
  with \<open>c x y \<le> 0\<close>.
\<close>

fun insertBy :: "('a \<Rightarrow> 'a \<Rightarrow> int) \<Rightarrow> 'a \<Rightarrow> 'a list \<Rightarrow> 'a list" where
  "insertBy c x [] = [x]"
| "insertBy c x (y # ys) = (if c x y \<le> 0 then x # y # ys else y # insertBy c x ys)"

fun sortBy_cmp :: "('a \<Rightarrow> 'a \<Rightarrow> int) \<Rightarrow> 'a list \<Rightarrow> 'a list" where
  "sortBy_cmp c [] = []"
| "sortBy_cmp c (x # xs) = insertBy c x (sortBy_cmp c xs)"

text \<open>
  A number the comparator returns is an integer or \<open>NaN\<close>, here \<open>None\<close>. \<open>sort\<close> reads
  the comparator through \<open>sortCompare\<close>, which takes \<open>NaN\<close> as \<open>0\<close>. With a comparator
  that returns \<open>NaN\<close> on some pairs the order of the result is left to the engine; the
  insertion sort then gives the order of an engine that, like it, never moves an element
  across a neighbour it compares equal to.
\<close>

definition sortCompare :: "('a \<Rightarrow> 'a \<Rightarrow> int option) \<Rightarrow> 'a \<Rightarrow> 'a \<Rightarrow> int" where
  "sortCompare comparefn a b = (case comparefn a b of None \<Rightarrow> 0 | Some v \<Rightarrow> v)"

definition arraySort ::
  "(Thread \<Rightarrow> Thread \<Rightarrow> int option) \<Rightarrow> nat \<times> Heap \<Rightarrow> nat \<times> Heap" where
  "arraySort c = (\<lambda>(r, h).
     (r, h\<lparr>arrays := (arrays h)(r := sortBy_cmp (sortCompare c) (arrays h r))\<rparr>))"

subsection \<open>The stages of \<open>filteredThreads\<close>\<close>

definition matchesSearch :: "(jsstring \<Rightarrow> jsstring) \<Rightarrow> jsstring \<Rightarrow> Thread \<Rightarrow> bool" where
  "matchesSearch toLowerCase query thread =
     (includes_str (toLowerCase (title thread)) query
      \<or> includes_str (toLowerCase (content thread)) query
      \<or> includes_str (toLowerCase (authorName thread)) query
      \<or> list_ex (\<lambda>tag. includes_str (toLowerCase tag) query) (tags thread))"

definition searchStage :: "(jsstring \<Rightarrow> jsstring) \<Rightarrow> jsstring \<Rightarrow> nat \<times> Heap \<Rightarrow> nat \<times> Heap" where
  "searchStage toLowerCase q filtered =
     (if trim q \<noteq> [] then arrayFilter (matchesSearch toLowerCase (toLowerCase q)) filtered
      else filtered)"

definition typeStage :: "TypeFilter \<Rightarrow> nat \<times> Heap \<Rightarrow> nat \<times> Heap" where
  "typeStage sel filtered =
     (if sel \<noteq> AllTypes then arrayFilter (\<lambda>thread. Only (threadType thread) = sel) filtered
      else filtered)"

definition unitStage :: "jsstring \<Rightarrow> nat \<times> Heap \<Rightarrow> nat \<times> Heap" where
  "unitStage sel filtered =
     (if sel \<noteq> js ''all''
      then arrayFilter (\<lambda>thread. threadType thread = Classroom \<and> unitId thread = Some sel) filtered
      else filtered)"

definition categoryStage :: "jsstring \<Rightarrow> nat \<times> Heap \<Rightarrow> nat \<times> Heap" where
  "categoryStage sel filtered =
     (if sel \<noteq> js ''all''
      then arrayFilter (\<lambda>thread. threadType thread = Generic \<and> category thread = Some sel) filtered
      else filtered)"

text \<open>
  \<open>new Date(x).getTime()\<close>: the time value \<open>x\<close> when it is the time value of a date,
  that is within 8.64e15 milliseconds of the epoch, and \<open>NaN\<close> otherwise. \<open>numSub\<close> is
  the subtraction of two such numbers, \<open>NaN\<close> as soon as one of them is.
\<close>

definition getTime :: "int \<Rightarrow> int option" where
  "getTime x =
     (if - 8640000000000000 \<le> x \<and> x \<le> 8640000000000000 then Some x else None)"

fun numSub :: "int option \<Rightarrow> int option \<Rightarrow> int option" where
  "numSub (Some x) (Some y) = Some (x - y)"
| "numSub _ _ = None"

text \<open>The comparator handed to \<open>sort\<close>; \<open>sortBy\<close> has no value outside the three cases.\<close>

fun compareThreads :: "SortKey \<Rightarrow> Thread \<Rightarrow> Thread \<Rightarrow> int option" where
  "compareThreads Recent a b = numSub (getTime (updatedAt b)) (getTime (updatedAt a))"
| "compareThreads Replies a b = Some (repliesCount b - repliesCount a)"
| "compareThreads Created a b = numSub (getTime (createdAt b)) (getTime (createdAt a))"

text \<open>
  \<open>filteredThreads\<close>: \<open>threads\<close> is the reference of the input array in the heap \<open>h\<close>;
  the result is the reference the callback returns and the heap it leaves behind.
\<close>

definition filteredThreads ::
  "(jsstring \<Rightarrow> jsstring) \<Rightarrow> Query \<Rightarrow> nat \<Rightarrow> Heap \<Rightarrow> nat \<times> Heap" where
  "filteredThreads toLowerCase q threads h =
     arraySort (compareThreads (sortBy q))
       (categoryStage (selectedCategory q)
         (unitStage (selectedUnit q)
           (typeStage (selectedThreadType q)
             (searchStage toLowerCase (searchQuery q) (threads, h)))))"

text \<open>The elements of the array a reference denotes, and of the array the callback returns.\<close>

definition elems :: "nat \<times> Heap \<Rightarrow> Thread list" where
  "elems rh = arrays (snd rh) (fst rh)"

definition noFilterActive :: "Query \<Rightarrow> bool" where
  "noFilterActive q =
     (trim (searchQuery q) = [] \<and> selectedThreadType q = AllTypes
      \<and> selectedUnit q = js ''all'' \<and> selectedCategory q = js ''all'')"

subsection \<open>\<open>threadStats\<close>\<close>

text \<open>The object \<open>threadStats\<close> returns; its field \<open>open\<close> is named \<open>openCount\<close> here.\<close>

record Stats =
  total :: int
  resolved :: int
  openCount :: int
  classroom :: int
  generic :: int

definition threadStats :: "Thread list \<Rightarrow> Stats" where
  "threadStats threads =
     (let total' = int (length threads);
          resolved' = int (length (filter (\<lambda>t. isResolved t) threads));
          open' = total' - resolved';
          classroom' = int (length (filter (\<lambda>t. threadType t = Classroom) threads));
          generic' = int (length (filter (\<lambda>t. threadType t = Generic) threads))
      in \<lparr>total = total', resolved = resolved', openCount = open',
          classroom = classroom', generic = generic'\<rparr>)"

section \<open>The thread creation form (component \<open>EnhancedNewThreadModal\<close>)\<close>

datatype Visibility = Public | Restricted

text \<open>
  The props the handlers read. \<open>units\<close> is a list of (id, name) pairs, \<open>[]\<close> when the
  prop is absent; \<open>threadType_p\<close> is the prop \<open>threadType\<close>.
\<close>

record ModalProps =
  classroomId :: "jsstring option"
  classroomName :: "jsstring option"
  units :: "(jsstring \<times> jsstring) list"
  threadType_p :: ThreadType

text \<open>
  The state variables of the component; \<open>title\<close>, \<open>content\<close>, \<open>selectedCategory\<close> and
  \<open>tags\<close> carry the suffix \<open>_st\<close>.
\<close>

record ModalState =
  title_st :: jsstring
  content_st :: jsstring
  selectedUnitId :: jsstring
  selectedCategory_st :: jsstring
  visibility :: Visibility
  tags_st :: "jsstring list"
  currentTag :: jsstring
  isGeneratingAiSuggestion :: bool
  showPreview :: bool

definition initialModalState :: ModalState where
  "initialModalState =
     \<lparr>title_st = [], content_st = [], selectedUnitId = [], selectedCategory_st = [],
      visibility = Public, tags_st = [], currentTag = [],
      isGeneratingAiSuggestion = False, showPreview = False\<rparr>"

text \<open>
  The object handed to \<open>onSubmit\<close>, fields suffixed \<open>_td\<close>. A key the object literal
  does not have, or whose value is \<open>undefined\<close>, is \<open>None\<close>.
\<close>

record ThreadData =
  title_td :: jsstring
  content_td :: jsstring
  authorId_td :: jsstring
  authorName_td :: jsstring
  tags_td :: "jsstring list"
  aiSummary_td :: "jsstring option"
  aiSuggestedAnswer_td :: "jsstring option"
  threadType_td :: ThreadType
  classroomId_td :: "jsstring option"
  classroomName_td :: "jsstring option"
  unitId_td :: "jsstring option"
  unitName_td :: "jsstring option"
  category_td :: "jsstring option"
  visibility_td :: "Visibility option"
  allowedRoles_td :: "jsstring list option"

definition TITLE_LIMIT :: nat where
  "TITLE_LIMIT = 150"

text \<open>The title input's \<open>onChange\<close>: \<open>setTitle(e.target.value.slice(0, TITLE_LIMIT))\<close>.\<close>

definition titleChange :: "jsstring \<Rightarrow> ModalState \<Rightarrow> ModalState" where
  "titleChange v st = st\<lparr>title_st := take TITLE_LIMIT v\<rparr>"

text \<open>\<open>handleAddTag\<close>, given the key of the keyboard event.\<close>

definition handleAddTag :: "(jsstring \<Rightarrow> jsstring) \<Rightarrow> jsstring \<Rightarrow> ModalState \<Rightarrow> ModalState" where
  "handleAddTag toLowerCase key st =
     (if key = js ''Enter'' \<and> trim (currentTag st) \<noteq> []
      then (if toLowerCase (trim (currentTag st)) \<notin> set (tags_st st)
            then st\<lparr>tags_st := tags_st st @ [toLowerCase (trim (currentTag st))]\<rparr>
            else st)\<lparr>currentTag := []\<rparr>
      else st)"

definition removeTag :: "jsstring \<Rightarrow> ModalState \<Rightarrow> ModalState" where
  "removeTag tagToRemove st = st\<lparr>tags_st := filter (\<lambda>tag. tag \<noteq> tagToRemove) (tags_st st)\<rparr>"

text \<open>\<open>[...new Set(xs)]\<close>: the first occurrence of every element, in order.\<close>

fun uniq :: "'a list \<Rightarrow> 'a list \<Rightarrow> 'a list" where
  "uniq seen [] = []"
| "uniq seen (x # xs) = (if x \<in> set seen then uniq seen xs else x # uniq (x # seen) xs)"

text \<open>
  \<open>generateAiSuggestion\<close> awaits a two second timer. \<open>generateAiSuggestion_start\<close> is
  the part before the \<open>await\<close>: it returns the new state and, when the run goes on, the
  \<open>content\<close> its closure holds. \<open>generateAiSuggestion_resume\<close> is the part after it,
  applied to the state the component has when the timer fires.
\<close>

definition generateAiSuggestion_start :: "ModalState \<Rightarrow> ModalState \<times> jsstring option" where
  "generateAiSuggestion_start st =
     (if trim (title_st st) = [] \<or> trim (content_st st) = [] then (st, None)
      else (st\<lparr>isGeneratingAiSuggestion := True\<rparr>, Some (content_st st)))"

definition generateAiSuggestion_resume ::
  "(jsstring \<Rightarrow> jsstring) \<Rightarrow> jsstring \<Rightarrow> ModalState \<Rightarrow> ModalState" where
  "generateAiSuggestion_resume toLowerCase content' st =
     (let autoTags =
            (if includes_str (toLowerCase content') (js ''equation'') then [js ''equations''] else [])
          @ (if includes_str (toLowerCase content') (js ''graph'') then [js ''graphing''] else [])
          @ (if includes_str (toLowerCase content') (js ''formula'') then [js ''formulas''] else [])
          @ (if includes_str (toLowerCase content') (js ''proof'') then [js ''proofs''] else [])
      in st\<lparr>tags_st := uniq [] (tags_st st @ autoTags), isGeneratingAiSuggestion := False\<rparr>)"

text \<open>
  \<open>handleSubmit\<close>: \<open>None\<close> when the handler returns without calling \<open>onSubmit\<close>,
  otherwise the object it passes.
\<close>

definition handleSubmit :: "ModalProps \<Rightarrow> ModalState \<Rightarrow> ThreadData option" where
  "handleSubmit props st =
     (if trim (title_st st) = [] \<or> trim (content_st st) = [] then None
      else if threadType_p props = Classroom \<and> selectedUnitId st = [] then None
      else if threadType_p props = Generic \<and> selectedCategory_st st = [] then None
      else if threadType_p props = Classroom then
        (let selectedUnit = find (\<lambda>unit. fst unit = selectedUnitId st) (units props) in
         Some \<lparr>title_td = trim (title_st st), content_td = trim (content_st st),
               authorId_td = js ''current-user-id'', authorName_td = js ''Current User'',
               tags_td = tags_st st, aiSummary_td = None, aiSuggestedAnswer_td = None,
               threadType_td = Classroom,
               classroomId_td = classroomId props,
               classroomName_td = Some (case classroomName props of None \<Rightarrow> [] | Some n \<Rightarrow> n),
               unitId_td = Some (selectedUnitId st),
               unitName_td = Some (case selectedUnit of None \<Rightarrow> [] | Some unit \<Rightarrow> snd unit),
               category_td = None, visibility_td = None, allowedRoles_td = None\<rparr>)
      else
         Some \<lparr>title_td = trim (title_st st), content_td = trim (content_st st),
               authorId_td = js ''current-user-id'', authorName_td = js ''Current User'',
               tags_td = tags_st st, aiSummary_td = None, aiSuggestedAnswer_td = None,
               threadType_td = Generic,
               classroomId_td = None, classroomName_td = None,
               unitId_td = None, unitName_td = None,
               category_td = Some (selectedCategory_st st),
               visibility_td = Some (visibility st),
               allowedRoles_td =
                 (if visibility st = Restricted then Some [js ''teacher'', js ''admin''] else None)\<rparr>)"

subsection \<open>The form as a machine\<close>

text \<open>
  Every handler of the component that writes state, as an event. \<open>pendingAi\<close> holds the
  captured contents of the suggestion runs whose timer has not fired yet, \<open>submitted\<close>
  the objects passed to \<open>onSubmit\<close> so far, oldest first.
\<close>

datatype ModalEvent =
    TitleInput jsstring
  | ContentInput jsstring
  | UnitSelect jsstring
  | CategorySelect jsstring
  | VisibilitySelect Visibility
  | CurrentTagInput jsstring
  | TagKeyDown jsstring
  | TagRemove jsstring
  | PreviewToggle
  | AiSuggestionClick
  | AiSuggestionTimer
  | FormSubmit

record Modal =
  ui :: ModalState
  pendingAi :: "jsstring list"
  submitted :: "ThreadData list"

definition initialModal :: Modal where
  "initialModal = \<lparr>ui = initialModalState, pendingAi = [], submitted = []\<rparr>"

fun modalStep :: "(jsstring \<Rightarrow> jsstring) \<Rightarrow> ModalProps \<Rightarrow> Modal \<Rightarrow> ModalEvent \<Rightarrow> Modal" where
  "modalStep lc props m (TitleInput v) = m\<lparr>ui := titleChange v (ui m)\<rparr>"
| "modalStep lc props m (ContentInput v) = m\<lparr>ui := (ui m)\<lparr>content_st := v\<rparr>\<rparr>"
| "modalStep lc props m (UnitSelect v) = m\<lparr>ui := (ui m)\<lparr>selectedUnitId := v\<rparr>\<rparr>"
| "modalStep lc props m (CategorySelect v) = m\<lparr>ui := (ui m)\<lparr>selectedCategory_st := v\<rparr>\<rparr>"
| "modalStep lc props m (VisibilitySelect v) = m\<lparr>ui := (ui m)\<lparr>visibility := v\<rparr>\<rparr>"
| "modalStep lc props m (CurrentTagInput v) = m\<lparr>ui := (ui m)\<lparr>currentTag := v\<rparr>\<rparr>"
| "modalStep lc props m (TagKeyDown key) = m\<lparr>ui := handleAddTag lc key (ui m)\<rparr>"
| "modalStep lc props m (TagRemove tag) = m\<lparr>ui := removeTag tag (ui m)\<rparr>"
| "modalStep lc props m PreviewToggle = m\<lparr>ui := (ui m)\<lparr>showPreview := \<not> showPreview (ui m)\<rparr>\<rparr>"
| "modalStep lc props m AiSuggestionClick =
     (case generateAiSuggestion_start (ui m) of
        (st, None) \<Rightarrow> m\<lparr>ui := st\<rparr>
      | (st, Some captured) \<Rightarrow> m\<lparr>ui := st, pendingAi := pendingAi m @ [captured]\<rparr>)"
| "modalStep lc props m AiSuggestionTimer =
     (case pendingAi m of
        [] \<Rightarrow> m
      | captured # rest \<Rightarrow>
          m\<lparr>ui := generateAiSuggestion_resume lc captured (ui m), pendingAi := rest\<rparr>)"
| "modalStep lc props m FormSubmit =
     (case handleSubmit props (ui m) of
        None \<Rightarrow> m
      | Some threadData \<Rightarrow> m\<lparr>submitted := submitted m @ [threadData]\<rparr>)"

definition modalRun :: "(jsstring \<Rightarrow> jsstring) \<Rightarrow> ModalProps \<Rightarrow> ModalEvent list \<Rightarrow> Modal" where
  "modalRun lc props events = foldl (modalStep lc props) initialModal events"

section \<open>The content card (component \<open>ContentItem\<close>)\<close>

text \<open>
  Modelled from the spec: the \<open>ContentType\<close> enumeration and the \<open>EducationalContent\<close>
  type of \<open>../types\<close>, which are not among the sources. The enumeration has the four
  members the card switches on; the fields are those the spec's data model names and the
  card reads (\<open>id\<close>, \<open>type\<close>, \<open>content\<close>, \<open>version\<close>, \<open>createdAt\<close>), suffixed \<open>_c\<close>.
\<close>

datatype ContentType = NOTE | LINK | VIDEO | DOCUMENT

record EducationalContent =
  id_c :: jsstring
  type_c :: ContentType
  content_c :: jsstring
  version_c :: int
  createdAt_c :: int

text \<open>
  The state variables of the card. \<open>editError\<close> only ever holds one of the three message
  literals of the source, or \<open>null\<close>.
\<close>

record ItemState =
  isExpanded :: bool
  isDeleting :: bool
  showDeleteConfirm :: bool
  isDeleted :: bool
  deleteSuccess :: bool
  isEditing :: bool
  editedContent :: jsstring
  isSaving :: bool
  saveSuccess :: bool
  editError :: "string option"

text \<open>
  What a handler does to the world outside the component state, in order: the calls to
  the API module, \<open>console.error\<close>, and \<open>setTimeout\<close> with the callback it registers and
  its delay in milliseconds.
\<close>

datatype Callback = SaveSuccessExpired | RefreshAfterDelete

datatype Effect =
    UpdateContent jsstring jsstring ContentType
  | DeleteContent jsstring
  | ConsoleError string
  | SetTimeout Callback nat

text \<open>How the promise of an API call settles.\<close>

datatype ApiOutcome = Fulfilled | Rejected

text \<open>
  \<open>handleSave\<close>. \<open>new URL(s)\<close> is a built-in of the platform: \<open>urlParses s\<close> tells
  whether it returns rather than throws. \<open>handleSave_settled\<close> is the part of the handler
  after the \<open>await\<close>, which only calls setters: the \<open>Fulfilled\<close> branch is the rest of
  the \<open>try\<close> block, the \<open>Rejected\<close> branch the \<open>catch\<close> block, and both end with the
  \<open>finally\<close> block. \<open>handleSave\<close> runs the handler to its end with the given outcome
  of \<open>updateContent\<close>, no other event coming in between. The handlers read the content
  item and never write it; what they do is the new state and the list of effects.
\<close>

definition handleSave_settled :: "ApiOutcome \<Rightarrow> ItemState \<Rightarrow> ItemState \<times> Effect list" where
  "handleSave_settled outcome st =
     (case outcome of
        Fulfilled \<Rightarrow>
          (st\<lparr>saveSuccess := True, isEditing := False, isSaving := False\<rparr>,
           [SetTimeout SaveSuccessExpired 1500])
      | Rejected \<Rightarrow>
          (st\<lparr>editError := Some ''Failed to save changes. Please try again.'', isSaving := False\<rparr>,
           [ConsoleError ''Failed to update content:'']))"

definition handleSave ::
  "(jsstring \<Rightarrow> bool) \<Rightarrow> ApiOutcome \<Rightarrow> EducationalContent \<Rightarrow> ItemState \<Rightarrow> ItemState \<times> Effect list" where
  "handleSave urlParses outcome content' st =
     (if trim (editedContent st) = [] then (st\<lparr>editError := Some ''Content cannot be empty''\<rparr>, [])
      else if (type_c content' = LINK \<or> type_c content' = VIDEO) \<and> trim (editedContent st) \<noteq> []
              \<and> \<not> urlParses (trim (editedContent st))
      then (st\<lparr>editError := Some ''Please enter a valid URL''\<rparr>, [])
      else
        (let st1 = st\<lparr>isSaving := True, editError := None\<rparr>;
             call = UpdateContent (id_c content') (trim (editedContent st)) (type_c content');
             (st2, effects) = handleSave_settled outcome st1
         in (st2, call # effects)))"

text \<open>\<open>handleDelete\<close>, run to its end with the given outcome of \<open>deleteContent\<close>.\<close>

definition handleDelete_settled :: "ApiOutcome \<Rightarrow> ItemState \<Rightarrow> ItemState \<times> Effect list" where
  "handleDelete_settled outcome st =
     (case outcome of
        Fulfilled \<Rightarrow>
          (st\<lparr>deleteSuccess := True, isDeleted := True\<rparr>, [SetTimeout RefreshAfterDelete 500])
      | Rejected \<Rightarrow>
          (st\<lparr>isDeleting := False, showDeleteConfirm := False\<rparr>,
           [ConsoleError ''Failed to delete content:'']))"

definition handleDelete :: "ApiOutcome \<Rightarrow> EducationalContent \<Rightarrow> ItemState \<Rightarrow> ItemState \<times> Effect list" where
  "handleDelete outcome content' st =
     (let st1 = st\<lparr>isDeleting := True\<rparr>;
          call = DeleteContent (id_c content');
          (st2, effects) = handleDelete_settled outcome st1
      in (st2, call # effects))"

text \<open>The state \<open>useState\<close> sets up for a content item, and the other handlers.\<close>

definition initialItemState :: "EducationalContent \<Rightarrow> ItemState" where
  "initialItemState content' =
     \<lparr>isExpanded = False, isDeleting = False, showDeleteConfirm = False, isDeleted = False,
      deleteSuccess = False, isEditing = False, editedContent = content_c content',
      isSaving = False, saveSuccess = False, editError = None\<rparr>"

definition handleEdit :: "EducationalContent \<Rightarrow> ItemState \<Rightarrow> ItemState" where
  "handleEdit content' st =
     st\<lparr>isEditing := True, editedContent := content_c content', editError := None,
        saveSuccess := False\<rparr>"

definition handleCancelEdit :: "EducationalContent \<Rightarrow> ItemState \<Rightarrow> ItemState" where
  "handleCancelEdit content' st =
     st\<lparr>isEditing := False, editedContent := content_c content', editError := None\<rparr>"

section \<open>Inputs for evaluation\<close>

definition exThread ::
  "string \<Rightarrow> ThreadType \<Rightarrow> jsstring option \<Rightarrow> jsstring option \<Rightarrow> int \<Rightarrow> int \<Rightarrow> bool \<Rightarrow> Thread" where
  "exThread i ty u c upd n res =
     \<lparr>threadId = js i, title = js ''Title'', content = js ''Body'', authorName = js ''Ann'',
      tags = [], createdAt = 0, updatedAt = upd, repliesCount = n, isResolved = res,
      threadType = ty, unitId = u, category = c\<rparr>"

definition exQuery :: "jsstring \<Rightarrow> SortKey \<Rightarrow> Query" where
  "exQuery unit key =
     \<lparr>searchQuery = [], selectedThreadType = AllTypes, selectedUnit = unit,
      selectedCategory = js ''all'', sortBy = key\<rparr>"

definition exHeap :: "Thread list \<Rightarrow> Heap" where
  "exHeap L = \<lparr>arrays = (\<lambda>_. [])(0 := L), nextRef = 1\<rparr>"

definition exProps :: "ThreadType \<Rightarrow> ModalProps" where
  "exProps ty =
     \<lparr>classroomId = Some (js ''c1''), classroomName = Some (js ''Algebra''),
      units = [(js ''u1'', js ''Unit 1'')], threadType_p = ty\<rparr>"

definition exThreads :: "Thread list" where
  "exThreads =
     [exThread ''a'' Classroom (Some (js ''u1'')) None 10 5 False,
      exThread ''b'' Generic (Some (js ''u1'')) (Some (js ''help'')) 30 1 True,
      exThread ''c'' Classroom (Some (js ''u2'')) None 20 9 False]"

text \<open>Three threads, the second with an update time that is the time value of no date.\<close>

definition exUndated :: "Thread list" where
  "exUndated =
     [exThread ''a'' Generic None (Some (js ''help'')) 10 0 False,
      exThread ''b'' Generic None (Some (js ''help'')) 8640000000000001 0 False,
      exThread ''c'' Generic None (Some (js ''help'')) 20 0 False]"

definition exForm :: "jsstring \<Rightarrow> jsstring \<Rightarrow> ModalState" where
  "exForm unit cat = initialModalState\<lparr>title_st := js ''Q1'', content_st := js ''Why?'',
     selectedUnitId := unit, selectedCategory_st := cat\<rparr>"

definition exEvents :: "ModalEvent list" where
  "exEvents = [TitleInput (replicate 200 0x61), ContentInput (js ''body''),
     CategorySelect (js ''help''), FormSubmit]"

definition exNote :: EducationalContent where
  "exNote = \<lparr>id_c = js ''n1'', type_c = NOTE, content_c = js ''hello'', version_c = 1,
     createdAt_c = 0\<rparr>"

text \<open>The card expanded, the user having pressed Delete once: the confirmation is showing.\<close>

definition exConfirming :: ItemState where
  "exConfirming = (initialItemState exNote)\<lparr>isExpanded := True, showDeleteConfirm := True\<rparr>"

text \<open>The card expanded and in edit mode, with the given text in the editor.\<close>

definition exEditing :: "jsstring \<Rightarrow> ItemState" where
  "exEditing text = (handleEdit exNote ((initialItemState exNote)\<lparr>isExpanded := True\<rparr>))
     \<lparr>editedContent := text\<rparr>"

section \<open>Strings\<close>

lemma trim_empty_iff: "(trim s = []) = (\<forall>c\<in>set s. isWhiteSpace c)"
proof
  assume "trim s = []"
  then have all: "\<forall>x\<in>set (dropWhile isWhiteSpace s). isWhiteSpace x"
    by (simp add: trim_def dropWhile_eq_Nil_conv)
  have "dropWhile isWhiteSpace s = []"
  proof (rule ccontr)
    assume ne: "dropWhile isWhiteSpace s \<noteq> []"
    then have "\<not> isWhiteSpace (hd (dropWhile isWhiteSpace s))" by (rule hd_dropWhile)
    with ne all show False using hd_in_set by blast
  qed
  then show "\<forall>c\<in>set s. isWhiteSpace c" by (simp add: dropWhile_eq_Nil_conv)
next
  assume "\<forall>c\<in>set s. isWhiteSpace c"
  then have dw: "dropWhile isWhiteSpace s = []" by (simp add: dropWhile_eq_Nil_conv)
  show "trim s = []" unfolding trim_def dw by simp
qed

lemma length_trim: "length (trim s) \<le> length s"
proof -
  have "length (trim s) \<le> length (dropWhile isWhiteSpace s)"
    unfolding trim_def using length_dropWhile_le [of isWhiteSpace "rev (dropWhile isWhiteSpace s)"]
    by simp
  also have "\<dots> \<le> length s" by (rule length_dropWhile_le)
  finally show ?thesis .
qed

section \<open>The comparator sort\<close>

lemma mset_insertBy: "mset (insertBy c x ys) = add_mset x (mset ys)"
  by (induction ys) simp_all

lemma mset_sortBy_cmp: "mset (sortBy_cmp c xs) = mset xs"
  by (induction xs) (simp_all add: mset_insertBy)

lemma set_insertBy: "set (insertBy c x ys) = insert x (set ys)"
  by (induction ys) auto

lemma set_sortBy_cmp: "set (sortBy_cmp c xs) = set xs"
  by (induction xs) (simp_all add: set_insertBy)

text \<open>
  A comparator that, on the elements of the list, is the difference of an integer key,
  second argument first, sorts the list into descending key order.
\<close>

lemma descending_insertBy:
  assumes key: "\<And>y. y \<in> set ys \<Longrightarrow> (c x y \<le> 0) = (k y \<le> k x)"
    and srt: "sorted_wrt (\<lambda>a b. (k b :: int) \<le> k a) ys"
  shows "sorted_wrt (\<lambda>a b. k b \<le> k a) (insertBy c x ys)"
  using key srt
proof (induction ys)
  case Nil
  show ?case by simp
next
  case (Cons y ys)
  show ?case
  proof (cases "c x y \<le> 0")
    case True
    then have "k y \<le> k x" using Cons.prems(1) [of y] by simp
    with True Cons.prems(2) show ?thesis by fastforce
  next
    case False
    then have "k x \<le> k y" using Cons.prems(1) [of y] by simp
    moreover have "sorted_wrt (\<lambda>a b. k b \<le> k a) (insertBy c x ys)"
      using Cons.IH Cons.prems by simp
    ultimately show ?thesis using False Cons.prems(2) by (auto simp: set_insertBy)
  qed
qed

lemma descending_sortBy_cmp:
  assumes "\<And>a b. a \<in> set xs \<Longrightarrow> b \<in> set xs \<Longrightarrow> (c a b \<le> 0) = (k b \<le> k a)"
  shows "sorted_wrt (\<lambda>a b. (k b :: int) \<le> k a) (sortBy_cmp c xs)"
  using assms
proof (induction xs)
  case Nil
  show ?case by simp
next
  case (Cons x xs)
  have "sorted_wrt (\<lambda>a b. k b \<le> k a) (sortBy_cmp c xs)"
    using Cons.IH Cons.prems by simp
  moreover have "\<And>y. y \<in> set (sortBy_cmp c xs) \<Longrightarrow> (c x y \<le> 0) = (k y \<le> k x)"
    using Cons.prems by (simp add: set_sortBy_cmp)
  ultimately show ?case by (simp add: descending_insertBy)
qed

lemma sortCompare_replies:
  "(sortCompare (compareThreads Replies) a b \<le> 0) = (repliesCount b \<le> repliesCount a)"
  by (simp add: sortCompare_def)

lemma sortCompare_recent:
  "getTime (updatedAt a) \<noteq> None \<Longrightarrow> getTime (updatedAt b) \<noteq> None \<Longrightarrow>
     (sortCompare (compareThreads Recent) a b \<le> 0) = (updatedAt b \<le> updatedAt a)"
  by (auto simp: sortCompare_def getTime_def split: if_splits)

section \<open>What the stages of \<open>filteredThreads\<close> return\<close>

lemma elems_arrayFilter: "elems (arrayFilter p rh) = filter p (elems rh)"
  by (cases rh) (simp add: elems_def arrayFilter_def)

lemma elems_arraySort: "elems (arraySort c rh) = sortBy_cmp (sortCompare c) (elems rh)"
  by (cases rh) (simp add: elems_def arraySort_def)

lemma elems_searchStage:
  "elems (searchStage lc s rh) =
     (if trim s \<noteq> [] then filter (matchesSearch lc (lc s)) (elems rh) else elems rh)"
  by (simp add: searchStage_def elems_arrayFilter)

lemma elems_typeStage:
  "elems (typeStage sel rh) =
     (if sel \<noteq> AllTypes then filter (\<lambda>t. Only (threadType t) = sel) (elems rh) else elems rh)"
  by (simp add: typeStage_def elems_arrayFilter)

lemma elems_unitStage:
  "elems (unitStage sel rh) =
     (if sel \<noteq> js ''all''
      then filter (\<lambda>t. threadType t = Classroom \<and> unitId t = Some sel) (elems rh)
      else elems rh)"
  by (simp add: unitStage_def elems_arrayFilter)

lemma elems_categoryStage:
  "elems (categoryStage sel rh) =
     (if sel \<noteq> js ''all''
      then filter (\<lambda>t. threadType t = Generic \<and> category t = Some sel) (elems rh)
      else elems rh)"
  by (simp add: categoryStage_def elems_arrayFilter)

lemma set_elems_stage:
  "set (elems (searchStage lc s rh)) \<subseteq> set (elems rh)"
  "set (elems (typeStage ts rh)) \<subseteq> set (elems rh)"
  "set (elems (unitStage u rh)) \<subseteq> set (elems rh)"
  "set (elems (categoryStage ca rh)) \<subseteq> set (elems rh)"
  by (auto simp: elems_searchStage elems_typeStage elems_unitStage elems_categoryStage)

lemma mset_elems_stage:
  "mset (elems (searchStage lc s rh)) \<subseteq># mset (elems rh)"
  "mset (elems (typeStage ts rh)) \<subseteq># mset (elems rh)"
  "mset (elems (unitStage u rh)) \<subseteq># mset (elems rh)"
  "mset (elems (categoryStage ca rh)) \<subseteq># mset (elems rh)"
  by (simp_all add: elems_searchStage elems_typeStage elems_unitStage elems_categoryStage)

lemma elems_filteredThreads:
  "elems (filteredThreads lc q threads h) =
     sortBy_cmp (sortCompare (compareThreads (sortBy q)))
       (elems (categoryStage (selectedCategory q)
         (unitStage (selectedUnit q)
           (typeStage (selectedThreadType q)
             (searchStage lc (searchQuery q) (threads, h))))))"
  by (simp add: filteredThreads_def elems_arraySort)

lemma elems_filteredThreads_unfiltered:
  "noFilterActive q \<Longrightarrow>
     elems (filteredThreads lc q threads h) =
       sortBy_cmp (sortCompare (compareThreads (sortBy q))) (arrays h threads)"
  unfolding elems_filteredThreads
  by (simp add: noFilterActive_def searchStage_def typeStage_def unitStage_def
      categoryStage_def elems_def)

section \<open>The input array after the computation\<close>

text \<open>
  What \<open>filteredThreads\<close> leaves in the input array, for an input reference that is
  allocated: with a filter active the array that is sorted is a copy and the input keeps
  its elements in their order; with no filter active \<open>filtered\<close> still is the input
  reference and \<open>sort\<close> reorders the input itself.
\<close>

lemma filteredThreads_input_array:
  assumes "threads < nextRef h"
  shows "arrays (snd (filteredThreads lc q threads h)) threads =
     (if noFilterActive q then sortBy_cmp (sortCompare (compareThreads (sortBy q))) (arrays h threads)
      else arrays h threads)"
  using assms
  by (simp add: filteredThreads_def searchStage_def typeStage_def unitStage_def
      categoryStage_def arrayFilter_def arraySort_def noFilterActive_def)

text \<open>
  Claim C1, at a list of three threads with update timestamps 10, 30, 20 and a query with
  no filter active and sort key \<open>recent\<close>: after the computation the input array no
  longer holds its records in the order a, b, c it had before, but in the order b, c, a
  of the result.
\<close>

theorem filteredThreads_reorders_input:
  "arrays (exHeap exThreads) 0 = exThreads
   \<and> map threadId (arrays (exHeap exThreads) 0) = [js ''a'', js ''b'', js ''c'']
   \<and> noFilterActive (exQuery (js ''all'') Recent)
   \<and> map threadId
       (arrays (snd (filteredThreads asciiLower (exQuery (js ''all'') Recent) 0 (exHeap exThreads))) 0)
     = [js ''b'', js ''c'', js ''a'']
   \<and> arrays (snd (filteredThreads asciiLower (exQuery (js ''all'') Recent) 0 (exHeap exThreads))) 0
     \<noteq> exThreads"
  by (simp add: filteredThreads_def searchStage_def typeStage_def unitStage_def
      categoryStage_def arrayFilter_def arraySort_def sortCompare_def getTime_def
      noFilterActive_def exHeap_def exQuery_def exThreads_def exThread_def trim_def js_def)

section \<open>The list on concrete inputs\<close>

lemma ex_elems_input: "elems (0, exHeap L) = L"
  by (simp add: elems_def exHeap_def)

lemma ex_stages_all:
  "categoryStage (js ''all'') (unitStage (js ''all'') (typeStage AllTypes (searchStage lc [] rh))) = rh"
  by (simp add: categoryStage_def unitStage_def typeStage_def searchStage_def trim_def)

lemma ex_result_recent:
  "elems (filteredThreads asciiLower (exQuery (js ''all'') Recent) 0 (exHeap exThreads)) =
     [exThread ''b'' Generic (Some (js ''u1'')) (Some (js ''help'')) 30 1 True,
      exThread ''c'' Classroom (Some (js ''u2'')) None 20 9 False,
      exThread ''a'' Classroom (Some (js ''u1'')) None 10 5 False]"
  unfolding elems_filteredThreads exQuery_def
  by (simp add: ex_stages_all ex_elems_input exThreads_def exThread_def sortCompare_def
      getTime_def)

lemma ex_result_replies:
  "elems (filteredThreads asciiLower (exQuery (js ''all'') Replies) 0 (exHeap exThreads)) =
     [exThread ''c'' Classroom (Some (js ''u2'')) None 20 9 False,
      exThread ''a'' Classroom (Some (js ''u1'')) None 10 5 False,
      exThread ''b'' Generic (Some (js ''u1'')) (Some (js ''help'')) 30 1 True]"
  unfolding elems_filteredThreads exQuery_def
  by (simp add: ex_stages_all ex_elems_input exThreads_def exThread_def sortCompare_def
      getTime_def)

lemma js_u1_not_all: "js ''u1'' \<noteq> js ''all''" "js ''u2'' \<noteq> js ''u1''"
  by (simp_all add: js_def)

lemma ex_result_unit:
  "elems (filteredThreads asciiLower (exQuery (js ''u1'') Recent) 0 (exHeap exThreads)) =
     [exThread ''a'' Classroom (Some (js ''u1'')) None 10 5 False]"
  unfolding elems_filteredThreads exQuery_def
  by (simp add: elems_categoryStage elems_unitStage elems_typeStage elems_searchStage
      trim_def ex_elems_input exThreads_def js_u1_not_all)
     (simp add: exThread_def js_u1_not_all sortCompare_def getTime_def)

section \<open>Properties of the filtered and sorted list\<close>

text \<open>
  Claim C4: the text search stage with an empty or whitespace-only query is the identity.
  When every code unit of the query is white space, \<open>trim\<close> leaves the empty string, the
  stage is skipped, and \<open>filtered\<close> is the same array with the same elements as before.
\<close>

theorem blank_search_is_identity:
  "\<forall>c\<in>set s. isWhiteSpace c \<Longrightarrow> searchStage toLowerCase s (r, h) = (r, h)"
  by (simp add: searchStage_def trim_empty_iff)

theorem blank_search_is_identity_witness:
  "list_all isWhiteSpace [0x20, 0x09, 0x3000]
   \<and> searchStage asciiLower [0x20, 0x09, 0x3000] (0, exHeap exThreads) = (0, exHeap exThreads)"
  using blank_search_is_identity [of "[0x20, 0x09, 0x3000]" asciiLower 0 "exHeap exThreads"]
  by (simp add: isWhiteSpace_def)

text \<open>
  Claim C5: with the unit selector set to a unit other than \<open>"all"\<close>, the unit stage keeps
  exactly the classroom threads whose unit id is the selected one, and every thread of the
  result of \<open>filteredThreads\<close> is a classroom thread of that unit; a thread of another
  type is dropped whatever its unit id.
\<close>

theorem unit_filter_only_classroom:
  assumes "selectedUnit q \<noteq> js ''all''"
  shows "elems (unitStage (selectedUnit q) rh) =
           filter (\<lambda>t. threadType t = Classroom \<and> unitId t = Some (selectedUnit q)) (elems rh)
         \<and> (\<forall>t\<in>set (elems (filteredThreads toLowerCase q threads h)).
               threadType t = Classroom \<and> unitId t = Some (selectedUnit q))"
proof
  show "elems (unitStage (selectedUnit q) rh) =
          filter (\<lambda>t. threadType t = Classroom \<and> unitId t = Some (selectedUnit q)) (elems rh)"
    using assms by (simp add: elems_unitStage)
next
  let ?s3 = "unitStage (selectedUnit q)
           (typeStage (selectedThreadType q)
             (searchStage toLowerCase (searchQuery q) (threads, h)))"
  have "set (elems (filteredThreads toLowerCase q threads h)) \<subseteq> set (elems ?s3)"
    using set_elems_stage(4) by (simp add: elems_filteredThreads set_sortBy_cmp)
  moreover have "\<forall>t\<in>set (elems ?s3). threadType t = Classroom \<and> unitId t = Some (selectedUnit q)"
    using assms by (simp add: elems_unitStage)
  ultimately show "\<forall>t\<in>set (elems (filteredThreads toLowerCase q threads h)).
               threadType t = Classroom \<and> unitId t = Some (selectedUnit q)"
    by blast
qed

theorem unit_filter_only_classroom_witness:
  "selectedUnit (exQuery (js ''u1'') Recent) \<noteq> js ''all''
   \<and> map threadType exThreads = [Classroom, Generic, Classroom]
   \<and> map unitId exThreads = [Some (js ''u1''), Some (js ''u1''), Some (js ''u2'')]
   \<and> map threadId (elems (filteredThreads asciiLower (exQuery (js ''u1'') Recent) 0 (exHeap exThreads)))
       = [js ''a'']
   \<and> list_all (\<lambda>t. threadType t = Classroom \<and> unitId t = Some (js ''u1''))
       (elems (filteredThreads asciiLower (exQuery (js ''u1'') Recent) 0 (exHeap exThreads)))"
  using unit_filter_only_classroom [of "exQuery (js ''u1'') Recent" "(0, exHeap exThreads)"
      asciiLower 0 "exHeap exThreads"]
  by (simp add: ex_result_unit js_u1_not_all)
     (simp add: exQuery_def exThreads_def exThread_def js_u1_not_all)

text \<open>
  Claim C6: the result of \<open>filteredThreads\<close> is a sub-multiset of the input list: every
  record of the output is a record of the input, with no greater multiplicity.
\<close>

theorem filteredThreads_sub_multiset:
  "mset (elems (filteredThreads toLowerCase q threads h)) \<subseteq># mset (arrays h threads)"
proof -
  let ?s1 = "searchStage toLowerCase (searchQuery q) (threads, h)"
  let ?s2 = "typeStage (selectedThreadType q) ?s1"
  let ?s3 = "unitStage (selectedUnit q) ?s2"
  let ?s4 = "categoryStage (selectedCategory q) ?s3"
  have "mset (elems (filteredThreads toLowerCase q threads h)) = mset (elems ?s4)"
    by (simp add: elems_filteredThreads mset_sortBy_cmp)
  also have "\<dots> \<subseteq># mset (elems ?s3)" by (rule mset_elems_stage)
  also have "\<dots> \<subseteq># mset (elems ?s2)" by (rule mset_elems_stage)
  also have "\<dots> \<subseteq># mset (elems ?s1)" by (rule mset_elems_stage)
  also have "\<dots> \<subseteq># mset (elems (threads, h))" by (rule mset_elems_stage)
  finally show ?thesis by (simp add: elems_def)
qed

lemma replies_example:
  "map repliesCount xs = [5, 1, 9] \<Longrightarrow>
     map repliesCount (sortBy_cmp (sortCompare (compareThreads Replies)) xs) = [9, 5, 1]"
  by (auto simp: map_eq_Cons_conv sortCompare_def)

lemma set_elems_filteredThreads:
  "set (elems (filteredThreads lc q threads h)) \<subseteq> set (arrays h threads)"
proof -
  let ?s1 = "searchStage lc (searchQuery q) (threads, h)"
  let ?s2 = "typeStage (selectedThreadType q) ?s1"
  let ?s3 = "unitStage (selectedUnit q) ?s2"
  let ?s4 = "categoryStage (selectedCategory q) ?s3"
  have "set (elems (filteredThreads lc q threads h)) = set (elems ?s4)"
    by (simp add: elems_filteredThreads set_sortBy_cmp)
  also have "\<dots> \<subseteq> set (elems ?s3)" by (rule set_elems_stage)
  also have "\<dots> \<subseteq> set (elems ?s2)" by (rule set_elems_stage)
  also have "\<dots> \<subseteq> set (elems ?s1)" by (rule set_elems_stage)
  also have "\<dots> \<subseteq> set (elems (threads, h))" by (rule set_elems_stage)
  finally show ?thesis by (simp add: elems_def)
qed

lemma ex_result_undated:
  "elems (filteredThreads asciiLower (exQuery (js ''all'') Recent) 0 (exHeap exUndated)) = exUndated"
  unfolding elems_filteredThreads exQuery_def
  by (simp add: ex_stages_all ex_elems_input exUndated_def exThread_def sortCompare_def
      getTime_def)

text \<open>
  Claim C7 says that for every thread list the sort with key \<open>recent\<close> leaves the update
  timestamps non-increasing. It does not hold for a list with an update time that is the
  time value of no date: \<open>getTime()\<close> is \<open>NaN\<close> there, the comparator returns \<open>NaN\<close> on
  every pair with that thread, and the list with update times 10, 8640000000000001, 20
  comes out in the order it went in, the timestamp 10 before the timestamp 20.
\<close>

theorem sort_recent_counterexample:
  "sortBy (exQuery (js ''all'') Recent) = Recent
   \<and> map updatedAt (arrays (exHeap exUndated) 0) = [10, 8640000000000001, 20]
   \<and> map (\<lambda>t. getTime (updatedAt t))
        (elems (filteredThreads asciiLower (exQuery (js ''all'') Recent) 0 (exHeap exUndated)))
       = [Some 10, None, Some 20]
   \<and> \<not> sorted_wrt (\<ge>)
        (map updatedAt
          (elems (filteredThreads asciiLower (exQuery (js ''all'') Recent) 0 (exHeap exUndated))))
   \<and> \<not> sorted_wrt (\<ge>)
        (List.map_filter (\<lambda>t. getTime (updatedAt t))
          (elems (filteredThreads asciiLower (exQuery (js ''all'') Recent) 0 (exHeap exUndated))))"
  by (simp add: ex_result_undated)
     (simp add: exUndated_def exThread_def exQuery_def exHeap_def getTime_def List.map_filter_def)

text \<open>
  Claim C7 as the code has it: for every thread list whose update times all are time
  values of dates, the sort with key \<open>recent\<close> leaves the update timestamps of the result
  non-increasing from first to last; for every thread list the sort with key \<open>replies\<close>
  leaves the reply counts non-increasing, and a list with reply counts 5, 1, 9 and no
  filter active comes out with reply counts 9, 5, 1.
\<close>

theorem sort_is_descending:
  "(sortBy q = Recent \<and> (\<forall>t\<in>set (arrays h threads). getTime (updatedAt t) \<noteq> None) \<longrightarrow>
      sorted_wrt (\<ge>) (map updatedAt (elems (filteredThreads toLowerCase q threads h))))
   \<and> (sortBy q = Replies \<longrightarrow>
      sorted_wrt (\<ge>) (map repliesCount (elems (filteredThreads toLowerCase q threads h))))
   \<and> (sortBy q = Replies \<and> noFilterActive q \<and> map repliesCount (arrays h threads) = [5, 1, 9] \<longrightarrow>
      map repliesCount (elems (filteredThreads toLowerCase q threads h)) = [9, 5, 1])"
proof (intro conjI impI)
  let ?s4 = "categoryStage (selectedCategory q)
         (unitStage (selectedUnit q)
           (typeStage (selectedThreadType q)
             (searchStage toLowerCase (searchQuery q) (threads, h))))"
  assume a: "sortBy q = Recent \<and> (\<forall>t\<in>set (arrays h threads). getTime (updatedAt t) \<noteq> None)"
  have "set (elems ?s4) \<subseteq> set (arrays h threads)"
    using set_elems_filteredThreads [of toLowerCase q threads h]
    by (simp add: elems_filteredThreads set_sortBy_cmp)
  with a have valid: "\<And>t. t \<in> set (elems ?s4) \<Longrightarrow> getTime (updatedAt t) \<noteq> None"
    by blast
  have "sorted_wrt (\<lambda>a b. updatedAt b \<le> updatedAt a)
          (sortBy_cmp (sortCompare (compareThreads Recent)) (elems ?s4))"
    by (rule descending_sortBy_cmp) (simp add: sortCompare_recent valid)
  with a show "sorted_wrt (\<ge>) (map updatedAt (elems (filteredThreads toLowerCase q threads h)))"
    by (simp add: elems_filteredThreads sorted_wrt_map)
next
  let ?s4 = "categoryStage (selectedCategory q)
         (unitStage (selectedUnit q)
           (typeStage (selectedThreadType q)
             (searchStage toLowerCase (searchQuery q) (threads, h))))"
  assume a: "sortBy q = Replies"
  have "sorted_wrt (\<lambda>a b. repliesCount b \<le> repliesCount a)
          (sortBy_cmp (sortCompare (compareThreads Replies)) (elems ?s4))"
    by (rule descending_sortBy_cmp) (simp add: sortCompare_replies)
  with a show "sorted_wrt (\<ge>) (map repliesCount (elems (filteredThreads toLowerCase q threads h)))"
    by (simp add: elems_filteredThreads sorted_wrt_map)
next
  assume "sortBy q = Replies \<and> noFilterActive q \<and> map repliesCount (arrays h threads) = [5, 1, 9]"
  then show "map repliesCount (elems (filteredThreads toLowerCase q threads h)) = [9, 5, 1]"
    by (simp add: elems_filteredThreads_unfiltered replies_example)
qed

lemma ex_dated: "list_all (\<lambda>t. getTime (updatedAt t) \<noteq> None) (arrays (exHeap exThreads) 0)"
  by (simp add: exHeap_def exThreads_def exThread_def getTime_def)

theorem sort_is_descending_witness:
  "sortBy (exQuery (js ''all'') Recent) = Recent
   \<and> list_all (\<lambda>t. getTime (updatedAt t) \<noteq> None) (arrays (exHeap exThreads) 0)
   \<and> map updatedAt exThreads = [10, 30, 20]
   \<and> map updatedAt (elems (filteredThreads asciiLower (exQuery (js ''all'') Recent) 0 (exHeap exThreads)))
       = [30, 20, 10]
   \<and> sorted_wrt (\<ge>)
       (map updatedAt (elems (filteredThreads asciiLower (exQuery (js ''all'') Recent) 0 (exHeap exThreads))))
   \<and> sortBy (exQuery (js ''all'') Replies) = Replies
   \<and> noFilterActive (exQuery (js ''all'') Replies)
   \<and> map repliesCount (arrays (exHeap exThreads) 0) = [5, 1, 9]
   \<and> map repliesCount (elems (filteredThreads asciiLower (exQuery (js ''all'') Replies) 0 (exHeap exThreads)))
       = [9, 5, 1]
   \<and> sorted_wrt (\<ge>)
       (map repliesCount (elems (filteredThreads asciiLower (exQuery (js ''all'') Replies) 0 (exHeap exThreads))))"
  using sort_is_descending [where q = "exQuery (js ''all'') Recent" and threads = 0
      and h = "exHeap exThreads" and toLowerCase = asciiLower]
    sort_is_descending [where q = "exQuery (js ''all'') Replies" and threads = 0
      and h = "exHeap exThreads" and toLowerCase = asciiLower]
    ex_dated
  by (simp add: ex_result_recent ex_result_replies)
     (simp add: noFilterActive_def trim_def exQuery_def exHeap_def exThreads_def exThread_def)

section \<open>Statistics\<close>

lemma count_filter: "int (length (filter P L)) = int (size (filter_mset P (mset L)))"
  by (metis mset_filter size_mset)

text \<open>
  Claim C8: \<open>total\<close> is the length of the list, \<open>resolved\<close> the number of threads with
  the resolved flag, \<open>open\<close> is \<open>total - resolved\<close>, \<open>classroom\<close> and \<open>generic\<close> are the
  numbers of threads of each type; the counts are those of the multiset of the list, and
  two lists with the same records in any order have the same statistics.
\<close>

theorem threadStats_counts:
  "total (threadStats L) = int (length L)
   \<and> resolved (threadStats L) = int (size {#t \<in># mset L. isResolved t#})
   \<and> openCount (threadStats L) = total (threadStats L) - resolved (threadStats L)
   \<and> classroom (threadStats L) = int (size {#t \<in># mset L. threadType t = Classroom#})
   \<and> generic (threadStats L) = int (size {#t \<in># mset L. threadType t = Generic#})
   \<and> (mset L = mset L' \<longrightarrow> threadStats L = threadStats L')"
  by (auto simp: threadStats_def Let_def count_filter dest: mset_eq_length)

lemma ex_rev: "rev exThreads \<noteq> exThreads"
  by (simp add: exThreads_def exThread_def js_def)

lemma ex_stats:
  "threadStats exThreads =
     \<lparr>total = 3, resolved = 1, openCount = 2, classroom = 2, generic = 1\<rparr>"
  by (simp add: threadStats_def exThreads_def exThread_def)

theorem threadStats_counts_witness:
  "mset exThreads = mset (rev exThreads)
   \<and> rev exThreads \<noteq> exThreads
   \<and> threadStats exThreads = threadStats (rev exThreads)
   \<and> threadStats exThreads = \<lparr>total = 3, resolved = 1, openCount = 2, classroom = 2, generic = 1\<rparr>"
  using threadStats_counts [of exThreads "rev exThreads"] ex_rev ex_stats
  by simp

section \<open>The creation form\<close>

lemma ex_trims: "trim (js ''Q1'') = js ''Q1''" "trim (js ''Why?'') = js ''Why?''"
  "js ''Q1'' \<noteq> []" "js ''Why?'' \<noteq> []" "js ''u1'' \<noteq> []" "js ''help'' \<noteq> []"
  by (simp_all add: trim_def isWhiteSpace_def js_def)

lemma ex_submit_classroom:
  "map_option unitId_td (handleSubmit (exProps Classroom) (exForm (js ''u1'') [])) = Some (Some (js ''u1''))"
  "map_option unitName_td (handleSubmit (exProps Classroom) (exForm (js ''u1'') [])) = Some (Some (js ''Unit 1''))"
  "map_option threadType_td (handleSubmit (exProps Classroom) (exForm (js ''u1'') [])) = Some Classroom"
  by (simp_all add: handleSubmit_def exProps_def exForm_def initialModalState_def ex_trims)

lemma ex_submit_generic:
  "map_option category_td (handleSubmit (exProps Generic) (exForm [] (js ''help''))) = Some (Some (js ''help''))"
  "map_option threadType_td (handleSubmit (exProps Generic) (exForm [] (js ''help''))) = Some Generic"
  by (simp_all add: handleSubmit_def exProps_def exForm_def initialModalState_def ex_trims)

text \<open>
  Claim C9: an object \<open>handleSubmit\<close> passes to \<open>onSubmit\<close> has the thread type of the
  form; a classroom one carries a non-empty unit id and a generic one a non-empty
  category. When the title or the content trims to the empty string, or the unit
  (classroom) or category (generic) is not chosen, \<open>onSubmit\<close> is not called.
\<close>

theorem handleSubmit_payload_invariant:
  "(\<forall>td. handleSubmit props st = Some td \<longrightarrow>
       threadType_td td = threadType_p props
       \<and> (threadType_td td = Classroom \<longrightarrow> (\<exists>u. unitId_td td = Some u \<and> u \<noteq> []))
       \<and> (threadType_td td = Generic \<longrightarrow> (\<exists>c. category_td td = Some c \<and> c \<noteq> [])))
   \<and> (trim (title_st st) = [] \<or> trim (content_st st) = []
        \<or> (threadType_p props = Classroom \<and> selectedUnitId st = [])
        \<or> (threadType_p props = Generic \<and> selectedCategory_st st = [])
      \<longrightarrow> handleSubmit props st = None)"
proof (cases "threadType_p props")
  case Classroom
  then show ?thesis by (auto simp: handleSubmit_def Let_def split: if_splits)
next
  case Generic
  then show ?thesis by (auto simp: handleSubmit_def Let_def split: if_splits)
qed

theorem handleSubmit_payload_invariant_witness:
  "map_option unitId_td (handleSubmit (exProps Classroom) (exForm (js ''u1'') [])) = Some (Some (js ''u1''))
   \<and> map_option category_td (handleSubmit (exProps Generic) (exForm [] (js ''help''))) = Some (Some (js ''help''))
   \<and> threadType_p (exProps Classroom) = Classroom \<and> selectedUnitId (exForm [] (js ''help'')) = []
   \<and> handleSubmit (exProps Classroom) (exForm [] (js ''help'')) = None
   \<and> threadType_p (exProps Generic) = Generic \<and> selectedCategory_st (exForm (js ''u1'') []) = []
   \<and> handleSubmit (exProps Generic) (exForm (js ''u1'') []) = None"
  using handleSubmit_payload_invariant [of "exProps Classroom" "exForm [] (js ''help'')"]
    handleSubmit_payload_invariant [of "exProps Generic" "exForm (js ''u1'') []"]
    handleSubmit_payload_invariant [of "exProps Classroom" "exForm (js ''u1'') []"]
    handleSubmit_payload_invariant [of "exProps Generic" "exForm [] (js ''help'')"]
    ex_submit_classroom(1) ex_submit_generic(1)
  by (simp add: exProps_def exForm_def)

lemma title_modalStep:
  "length (title_st (ui m)) \<le> 150 \<Longrightarrow> length (title_st (ui (modalStep lc props m e))) \<le> 150"
  by (cases e)
     (simp_all add: titleChange_def TITLE_LIMIT_def handleAddTag_def removeTag_def
        generateAiSuggestion_start_def generateAiSuggestion_resume_def Let_def
        split: list.splits option.splits)

lemma title_handleSubmit:
  "handleSubmit props st = Some td \<Longrightarrow> length (title_td td) \<le> length (title_st st)"
  by (auto simp: handleSubmit_def Let_def length_trim split: if_splits)

lemma submitted_modalStep:
  assumes "length (title_st (ui m)) \<le> 150"
    and "\<forall>td\<in>set (submitted m). length (title_td td) \<le> 150"
  shows "\<forall>td\<in>set (submitted (modalStep lc props m e)). length (title_td td) \<le> 150"
proof (cases e)
  case FormSubmit
  show ?thesis
  proof (cases "handleSubmit props (ui m)")
    case None
    with FormSubmit assms show ?thesis by simp
  next
    case (Some td)
    with title_handleSubmit [OF Some] FormSubmit assms show ?thesis by auto
  qed
qed (use assms in \<open>simp_all split: list.splits option.splits prod.splits\<close>)

lemma modalRun_snoc:
  "modalRun lc props (events @ [e]) = modalStep lc props (modalRun lc props events) e"
  by (simp add: modalRun_def)

lemma modalRun_title_invariant:
  "length (title_st (ui (modalRun lc props events))) \<le> 150
   \<and> (\<forall>td\<in>set (submitted (modalRun lc props events)). length (title_td td) \<le> 150)"
proof (induction events rule: rev_induct)
  case Nil
  show ?case by (simp add: modalRun_def initialModal_def initialModalState_def)
next
  case (snoc e events)
  then show ?case
    unfolding modalRun_snoc using title_modalStep submitted_modalStep by blast
qed

text \<open>
  Claim C10: a change of the title input stores the first 150 code units of the value;
  after any sequence of events the title state is at most 150 code units long, and so is
  the title of every object passed to \<open>onSubmit\<close>.
\<close>

theorem title_within_limit:
  "title_st (ui (modalStep toLowerCase props m (TitleInput v))) = take 150 v
   \<and> length (title_st (ui (modalRun toLowerCase props events))) \<le> 150
   \<and> (\<forall>td\<in>set (submitted (modalRun toLowerCase props events)). length (title_td td) \<le> 150)"
  using modalRun_title_invariant [of toLowerCase props events]
  by (simp add: titleChange_def TITLE_LIMIT_def)

lemma ex_run_titles:
  "title_st (ui (modalRun asciiLower (exProps Generic) exEvents)) = replicate 150 0x61"
  "map title_td (submitted (modalRun asciiLower (exProps Generic) exEvents)) = [replicate 150 0x61]"
  by (simp_all add: modalRun_def exEvents_def initialModal_def initialModalState_def titleChange_def
      TITLE_LIMIT_def handleSubmit_def exProps_def trim_def isWhiteSpace_def js_def)

theorem title_within_limit_witness:
  "title_st (ui (modalStep asciiLower (exProps Generic) initialModal (TitleInput (replicate 200 0x61))))
     = replicate 150 0x61
   \<and> length (title_st (ui (modalRun asciiLower (exProps Generic) exEvents))) = 150
   \<and> map (\<lambda>td. length (title_td td)) (submitted (modalRun asciiLower (exProps Generic) exEvents)) = [150]
   \<and> list_all (\<lambda>td. length (title_td td) \<le> 150)
       (submitted (modalRun asciiLower (exProps Generic) exEvents))"
  using title_within_limit [of asciiLower "exProps Generic" initialModal "replicate 200 0x61" exEvents]
    ex_run_titles(1) arg_cong [OF ex_run_titles(2), of "map length"]
  by (simp add: comp_def list_all_iff)

section \<open>The content card\<close>

text \<open>
  Claim C3: when the edited content trims to the empty string, \<open>handleSave\<close> sets the
  inline error to \<open>Content cannot be empty\<close>, changes nothing else and has no effect
  outside the state: \<open>updateContent\<close> is not called.
\<close>

theorem empty_content_rejected:
  "trim (editedContent st) = [] \<Longrightarrow>
     handleSave urlParses outcome content' st =
       (st\<lparr>editError := Some ''Content cannot be empty''\<rparr>, [])"
  by (simp add: handleSave_def)

lemma ex_blank: "trim [0x20, 0x0A, 0x20] = []"
  by (simp add: trim_def isWhiteSpace_def)

theorem empty_content_rejected_witness:
  "trim (editedContent (exEditing [0x20, 0x0A, 0x20])) = []
   \<and> snd (handleSave (\<lambda>s. True) Fulfilled exNote (exEditing [0x20, 0x0A, 0x20])) = []
   \<and> editError (fst (handleSave (\<lambda>s. True) Fulfilled exNote (exEditing [0x20, 0x0A, 0x20])))
       = Some ''Content cannot be empty''
   \<and> editedContent (fst (handleSave (\<lambda>s. True) Fulfilled exNote (exEditing [0x20, 0x0A, 0x20])))
       = [0x20, 0x0A, 0x20]"
  using empty_content_rejected [of "exEditing [0x20, 0x0A, 0x20]" "\<lambda>s. True" Fulfilled exNote]
  by (simp add: exEditing_def ex_blank)

text \<open>
  What the two handlers do when the API call rejects, for every state. \<open>handleSave\<close>
  logs the failure, sets the inline message and clears the saving flag. \<open>handleDelete\<close>
  logs the failure, clears the deleting flag and closes the confirmation; it does not
  touch \<open>editError\<close>, the only message state the card renders.
\<close>

lemma handleSave_rejected:
  assumes "trim (editedContent st) \<noteq> []"
    and "type_c content' = LINK \<or> type_c content' = VIDEO \<Longrightarrow> urlParses (trim (editedContent st))"
  shows "handleSave urlParses Rejected content' st =
          (st\<lparr>isSaving := False, editError := Some ''Failed to save changes. Please try again.''\<rparr>,
           [UpdateContent (id_c content') (trim (editedContent st)) (type_c content'),
            ConsoleError ''Failed to update content:''])"
  using assms by (auto simp: handleSave_def handleSave_settled_def)

lemma handleDelete_rejected:
  "handleDelete Rejected content' st =
     (st\<lparr>isDeleting := False, showDeleteConfirm := False\<rparr>,
      [DeleteContent (id_c content'), ConsoleError ''Failed to delete content:''])"
  by (simp add: handleDelete_def handleDelete_settled_def)

lemma handleDelete_editError:
  "editError (fst (handleDelete outcome content' st)) = editError st"
  by (cases outcome) (simp_all add: handleDelete_def handleDelete_settled_def)

text \<open>
  Claim C2 says that a failed API call of save or delete is caught, shows an error message
  to the user and leaves the prior state as it was. The delete handler does not: on the
  card with the delete confirmation showing and no message displayed, with
  \<open>deleteContent\<close> rejecting, \<open>handleDelete\<close> ends with \<open>editError\<close> still empty, so
  that no message is shown, with the confirmation closed, and with the failure written
  to the console only.
\<close>

theorem handleDelete_failure_shows_no_message:
  "showDeleteConfirm exConfirming
   \<and> editError exConfirming = None
   \<and> editError (fst (handleDelete Rejected exNote exConfirming)) = None
   \<and> fst (handleDelete Rejected exNote exConfirming) = exConfirming\<lparr>showDeleteConfirm := False\<rparr>
   \<and> snd (handleDelete Rejected exNote exConfirming) =
       [DeleteContent (js ''n1''), ConsoleError ''Failed to delete content:'']"
  by (simp add: handleDelete_def handleDelete_settled_def exConfirming_def exNote_def
      initialItemState_def)

end
